theory Spec2Isabelle
  imports Complex_Main
begin

section \<open>Data model (models/database\_models.py, models/schemas.py)\<close>

text \<open>
  The string-backed enumerations. The schema enums (\<open>LeaveType\<close>, \<open>LeaveStatus\<close>,
  \<open>EmployeeStatus\<close>) and the database enums (\<open>LeaveTypeEnum\<close>, \<open>LeaveStatusEnum\<close>,
  \<open>EmployeeStatusEnum\<close>) have the same members with the same string values, and the
  routers convert between them by value (\<open>LeaveTypeEnum(x.value)\<close>), which maps each member
  to the member of the same name. One datatype stands for both.
\<close>

datatype EmployeeStatus = ACTIVE | INACTIVE | ON_LEAVE

datatype LeaveType = SICK | VACATION | PERSONAL | UNPAID | MATERNITY | PATERNITY

datatype LeaveStatus = PENDING | APPROVED | REJECTED | CANCELLED

text \<open>
  A \<open>datetime.date\<close> is represented by its proleptic Gregorian ordinal
  (\<open>date.toordinal()\<close>); the routers only compare dates, and the ordinal is monotone.
\<close>

type_synonym date = nat

text \<open>
  The three tables. Every column declared \<open>nullable=False\<close> is a plain field, the
  \<open>nullable=True\<close> columns (\<open>manager_id\<close>, \<open>approved_by\<close>) are options. Field names carry
  a prefix per record, since record fields share one name space.
\<close>

record DepartmentModel =
  d_id :: int
  d_name :: string
  d_description :: string
  d_manager_id :: "int option"

record EmployeeModel =
  e_id :: int
  e_first_name :: string
  e_last_name :: string
  e_email :: string
  e_phone :: string
  e_department_id :: int
  e_position :: string
  e_hire_date :: date
  e_salary :: real
  e_status :: EmployeeStatus

record LeaveRequestModel =
  l_id :: int
  l_employee_id :: int
  l_leave_type :: LeaveType
  l_start_date :: date
  l_end_date :: date
  l_reason :: string
  l_status :: LeaveStatus
  l_approved_by :: "int option"
  l_created_at :: date

text \<open>The request and response bodies of the leave router (models/schemas.py).\<close>

record LeaveRequestCreate =
  c_employee_id :: int
  c_leave_type :: LeaveType
  c_start_date :: date
  c_end_date :: date
  c_reason :: string

text \<open>
  \<open>LeaveRequestUpdate\<close>: each field is \<open>Optional[...] = None\<close>, and the router reads the
  body through \<open>model_dump(exclude_unset=True)\<close>. A field therefore has three states:
  \<open>None\<close> (not sent, absent from \<open>update_data\<close>), \<open>Some None\<close> (sent as an explicit
  null, present in \<open>update_data\<close> with value \<open>None\<close>) and \<open>Some (Some v)\<close>.
\<close>

record LeaveRequestUpdate =
  u_leave_type :: "LeaveType option option"
  u_start_date :: "date option option"
  u_end_date :: "date option option"
  u_reason :: "string option option"

record LeaveRequest =
  s_id :: int
  s_employee_id :: int
  s_leave_type :: LeaveType
  s_start_date :: date
  s_end_date :: date
  s_reason :: string
  s_status :: LeaveStatus
  s_approved_by :: "int option"
  s_created_at :: date

record LeaveApproval =
  a_approved :: bool
  a_approved_by :: int
  a_comments :: "string option"

text \<open>
  The store behind a \<open>Session\<close>: the rows of each table in storage order, and the
  sequence behind the autoincrement primary key of \<open>leave_requests\<close>.
  \<open>query(...).filter(p).first()\<close> is \<open>find p\<close> on the rows.
\<close>

record db =
  departments :: "DepartmentModel list"
  employees :: "EmployeeModel list"
  leave_requests :: "LeaveRequestModel list"
  leave_requests_id_seq :: int

text \<open>
  Every \<open>raise\<close> of the modelled handlers. An \<open>HTTPException\<close> carries its status code
  and its detail message (one constructor per message, with the values the message
  formats). In the vocabulary of the specification: \<open>LeaveNotFound\<close>,
  \<open>EmployeeNotFound\<close>, \<open>DepartmentNotFound\<close>, \<open>EmployeeDoesNotExist\<close> and
  \<open>ApproverDoesNotExist\<close> are NotFound, \<open>EndBeforeStart\<close> is InvalidRange,
  \<open>Overlapping\<close> is Conflict, \<open>CannotUpdate\<close>, \<open>CannotDelete\<close>, \<open>CannotApprove\<close> and
  \<open>DepartmentHasEmployees\<close> are InvalidState. \<open>TypeError\<close> and \<open>IntegrityError\<close> are
  the exceptions that no handler catches.
\<close>

datatype detail =
    LeaveNotFound int
  | EmployeeDoesNotExist int
  | EndBeforeStart
  | Overlapping int
  | CannotUpdate LeaveStatus
  | CannotDelete LeaveStatus
  | CannotApprove LeaveStatus
  | ApproverDoesNotExist int
  | DepartmentNotFound int
  | DepartmentHasEmployees
  | EmployeeNotFound int

datatype error = HTTPException nat detail | TypeError | IntegrityError

section \<open>Leave router (routers/leaves.py)\<close>

definition db_leave_to_schema :: "LeaveRequestModel \<Rightarrow> LeaveRequest" where
  "db_leave_to_schema db_leave =
     \<lparr>s_id = l_id db_leave,
      s_employee_id = l_employee_id db_leave,
      s_leave_type = l_leave_type db_leave,
      s_start_date = l_start_date db_leave,
      s_end_date = l_end_date db_leave,
      s_reason = l_reason db_leave,
      s_status = l_status db_leave,
      s_approved_by = l_approved_by db_leave,
      s_created_at = l_created_at db_leave\<rparr>"

text \<open>The filter of the overlap query of \<open>create_leave_request\<close> (lines 115 to 122).\<close>

definition overlapping_filter :: "LeaveRequestCreate \<Rightarrow> LeaveRequestModel \<Rightarrow> bool" where
  "overlapping_filter leave_request r \<longleftrightarrow>
     l_employee_id r = c_employee_id leave_request \<and>
     l_status r \<in> set [PENDING, APPROVED] \<and>
     \<not> (l_end_date r < c_start_date leave_request \<or>
        l_start_date r > c_end_date leave_request)"

text \<open>
  \<open>db.add(db_leave); db.commit(); db.refresh(db_leave)\<close>. The handler sets no \<open>id\<close>, so
  the insert draws the next value of the sequence as the primary key; a value once drawn
  stays drawn, whether or not the insert goes through. The column is declared
  \<open>primary_key=True\<close>, so the insert is refused (the result \<open>None\<close>) when a stored row
  already has that id; otherwise the row is appended. The sequence can lag behind the
  stored ids, since rows inserted with an explicit \<open>id\<close> do not draw from it
  (seed\_data.py lines 137 to 170 insert ids 1 to 3 that way).
\<close>

definition db_add_leave :: "LeaveRequestModel \<Rightarrow> db \<Rightarrow> LeaveRequestModel option \<times> db" where
  "db_add_leave row s =
     (let stored = row\<lparr>l_id := leave_requests_id_seq s\<rparr>;
          s' = s\<lparr>leave_requests_id_seq := leave_requests_id_seq s + 1\<rparr>
      in if leave_requests_id_seq s \<in> set (map l_id (leave_requests s))
         then (None, s')
         else (Some stored, s'\<lparr>leave_requests := leave_requests s @ [stored]\<rparr>))"

text \<open>
  \<open>create_leave_request\<close>. The first argument is the value of \<open>date.today()\<close> at the
  call. The result is the response or the exception, and the store after the call. The
  handler catches nothing, so a refused insert leaves it as \<open>IntegrityError\<close>.
\<close>

definition create_leave_request ::
  "date \<Rightarrow> LeaveRequestCreate \<Rightarrow> db \<Rightarrow> (error + LeaveRequest) \<times> db" where
  "create_leave_request today leave_request s =
     (case find (\<lambda>e. e_id e = c_employee_id leave_request) (employees s) of
        None \<Rightarrow> (Inl (HTTPException 400 (EmployeeDoesNotExist (c_employee_id leave_request))), s)
      | Some employee \<Rightarrow>
          if c_end_date leave_request < c_start_date leave_request
          then (Inl (HTTPException 400 EndBeforeStart), s)
          else
            (case find (overlapping_filter leave_request) (leave_requests s) of
               Some overlapping \<Rightarrow>
                 (Inl (HTTPException 400 (Overlapping (l_id overlapping))), s)
             | None \<Rightarrow>
                 (case db_add_leave
                         \<lparr>l_id = 0,
                          l_employee_id = c_employee_id leave_request,
                          l_leave_type = c_leave_type leave_request,
                          l_start_date = c_start_date leave_request,
                          l_end_date = c_end_date leave_request,
                          l_reason = c_reason leave_request,
                          l_status = PENDING,
                          l_approved_by = None,
                          l_created_at = today\<rparr> s of
                    (None, s') \<Rightarrow> (Inl IntegrityError, s')
                  | (Some db_leave, s') \<Rightarrow> (Inr (db_leave_to_schema db_leave), s'))))"

text \<open>
  \<open>update_data.get(key, default)\<close> on a field of the update body: the default when the
  field was not sent, else the value sent, which may be \<open>None\<close>.
\<close>

definition dict_get :: "'a option option \<Rightarrow> 'a option \<Rightarrow> 'a option" where
  "dict_get field dflt = (case field of None \<Rightarrow> dflt | Some v \<Rightarrow> v)"

text \<open>
  Python's \<open>a < b\<close> on two values that are each a date or \<open>None\<close>: comparing with
  \<open>None\<close> raises \<open>TypeError\<close> (here the result \<open>None\<close>).
\<close>

definition py_lt :: "date option \<Rightarrow> date option \<Rightarrow> bool option" where
  "py_lt a b = (case (a, b) of (Some x, Some y) \<Rightarrow> Some (x < y) | _ \<Rightarrow> None)"

text \<open>
  The \<open>setattr\<close> loop over \<open>update_data\<close> followed by \<open>db.commit()\<close>: each field that
  was sent replaces the attribute. All four columns are \<open>nullable=False\<close>, so a row with a
  \<open>None\<close> among them is refused by the store at the commit (the result \<open>None\<close>).
\<close>

definition setattr_all :: "LeaveRequestUpdate \<Rightarrow> LeaveRequestModel \<Rightarrow> LeaveRequestModel option" where
  "setattr_all update_data db_leave =
     (case (dict_get (u_leave_type update_data) (Some (l_leave_type db_leave)),
            dict_get (u_start_date update_data) (Some (l_start_date db_leave)),
            dict_get (u_end_date update_data) (Some (l_end_date db_leave)),
            dict_get (u_reason update_data) (Some (l_reason db_leave))) of
        (Some t, Some a, Some b, Some r) \<Rightarrow>
          Some (db_leave\<lparr>l_leave_type := t, l_start_date := a, l_end_date := b, l_reason := r\<rparr>)
      | _ \<Rightarrow> None)"

text \<open>
  Committing the changed attributes of the loaded row \<open>db_leave\<close>: the row with its
  primary key is replaced.
\<close>

definition db_commit_leave :: "LeaveRequestModel \<Rightarrow> db \<Rightarrow> db" where
  "db_commit_leave row s =
     s\<lparr>leave_requests := map (\<lambda>r. if l_id r = l_id row then row else r) (leave_requests s)\<rparr>"

definition update_leave_request ::
  "int \<Rightarrow> LeaveRequestUpdate \<Rightarrow> db \<Rightarrow> (error + LeaveRequest) \<times> db" where
  "update_leave_request leave_id leave_update s =
     (case find (\<lambda>r. l_id r = leave_id) (leave_requests s) of
        None \<Rightarrow> (Inl (HTTPException 404 (LeaveNotFound leave_id)), s)
      | Some db_leave \<Rightarrow>
          if l_status db_leave \<noteq> PENDING
          then (Inl (HTTPException 400 (CannotUpdate (l_status db_leave))), s)
          else
            (let start_date = dict_get (u_start_date leave_update) (Some (l_start_date db_leave));
                 end_date = dict_get (u_end_date leave_update) (Some (l_end_date db_leave))
             in case py_lt end_date start_date of
                  None \<Rightarrow> (Inl TypeError, s)
                | Some True \<Rightarrow> (Inl (HTTPException 400 EndBeforeStart), s)
                | Some False \<Rightarrow>
                    (case setattr_all leave_update db_leave of
                       None \<Rightarrow> (Inl IntegrityError, s)
                     | Some row \<Rightarrow> (Inr (db_leave_to_schema row), db_commit_leave row s))))"

definition delete_leave_request :: "int \<Rightarrow> db \<Rightarrow> (error + unit) \<times> db" where
  "delete_leave_request leave_id s =
     (case find (\<lambda>r. l_id r = leave_id) (leave_requests s) of
        None \<Rightarrow> (Inl (HTTPException 404 (LeaveNotFound leave_id)), s)
      | Some db_leave \<Rightarrow>
          if l_status db_leave \<noteq> PENDING
          then (Inl (HTTPException 400 (CannotDelete (l_status db_leave))), s)
          else (Inr (), db_commit_leave (db_leave\<lparr>l_status := CANCELLED\<rparr>) s))"

definition approve_leave_request ::
  "int \<Rightarrow> LeaveApproval \<Rightarrow> db \<Rightarrow> (error + LeaveRequest) \<times> db" where
  "approve_leave_request leave_id approval s =
     (case find (\<lambda>r. l_id r = leave_id) (leave_requests s) of
        None \<Rightarrow> (Inl (HTTPException 404 (LeaveNotFound leave_id)), s)
      | Some db_leave \<Rightarrow>
          if l_status db_leave \<noteq> PENDING
          then (Inl (HTTPException 400 (CannotApprove (l_status db_leave))), s)
          else
            (case find (\<lambda>e. e_id e = a_approved_by approval) (employees s) of
               None \<Rightarrow>
                 (Inl (HTTPException 400 (ApproverDoesNotExist (a_approved_by approval))), s)
             | Some approver \<Rightarrow>
                 (let row = db_leave\<lparr>l_status := (if a_approved approval then APPROVED else REJECTED),
                                     l_approved_by := Some (a_approved_by approval)\<rparr>
                  in (Inr (db_leave_to_schema row), db_commit_leave row s))))"

section \<open>Department router (routers/departments.py)\<close>

text \<open>\<open>db.delete(db_department); db.commit()\<close>: the row with that primary key is removed.\<close>

definition db_delete_department :: "DepartmentModel \<Rightarrow> db \<Rightarrow> db" where
  "db_delete_department row s =
     s\<lparr>departments := filter (\<lambda>d. d_id d \<noteq> d_id row) (departments s)\<rparr>"

text \<open>
  \<open>delete_department\<close>; \<open>employee_count\<close> is the scalar of
  \<open>query(func.count(EmployeeModel.id)).filter(EmployeeModel.department_id == department_id)\<close>.
\<close>

definition delete_department :: "int \<Rightarrow> db \<Rightarrow> (error + unit) \<times> db" where
  "delete_department department_id s =
     (case find (\<lambda>d. d_id d = department_id) (departments s) of
        None \<Rightarrow> (Inl (HTTPException 404 (DepartmentNotFound department_id)), s)
      | Some db_department \<Rightarrow>
          (let employee_count =
                 int (length (filter (\<lambda>e. e_department_id e = department_id) (employees s)))
           in if employee_count > 0
              then (Inl (HTTPException 400 DepartmentHasEmployees), s)
              else (Inr (), db_delete_department db_department s)))"

section \<open>Employee router (routers/employees.py)\<close>

text \<open>
  The schema declares \<open>ForeignKey("employees.id")\<close> on \<open>departments.manager_id\<close>
  (database\_models.py line 41), on \<open>leave_requests.employee_id\<close> (line 71, with
  \<open>nullable=False\<close>) and on \<open>leave_requests.approved_by\<close> (line 77), none with an
  \<open>ondelete\<close> rule, and no relationship declares a delete cascade. An employee row is
  referenced when one of these columns holds its id.
\<close>

definition employee_referenced :: "int \<Rightarrow> db \<Rightarrow> bool" where
  "employee_referenced employee_id s \<longleftrightarrow>
     (\<exists>d \<in> set (departments s). d_manager_id d = Some employee_id) \<or>
     (\<exists>r \<in> set (leave_requests s).
        l_employee_id r = employee_id \<or> l_approved_by r = Some employee_id)"

text \<open>
  \<open>db.delete(db_employee); db.commit()\<close>. The store is PostgreSQL (database.py, main.py)
  with the tables created from the declarations above, so the commit that would remove a
  referenced employee row is refused (the result \<open>None\<close>): for \<open>manager_id\<close> and
  \<open>approved_by\<close> by the foreign key, for \<open>leave_requests.employee_id\<close> already when the
  session tries to null the column of the employee's requests, which \<open>nullable=False\<close>
  forbids. Otherwise the row with that primary key is removed. In every other handler modelled here the check that precedes the
  write already establishes the declared reference (the employee exists before the insert,
  the approver exists before \<open>approved_by\<close> is set, no employee is counted before the
  department is deleted), so this is the only write the store can refuse on a reference.
\<close>

definition db_delete_employee :: "EmployeeModel \<Rightarrow> db \<Rightarrow> db option" where
  "db_delete_employee row s =
     (if employee_referenced (e_id row) s then None
      else Some (s\<lparr>employees := filter (\<lambda>e. e_id e \<noteq> e_id row) (employees s)\<rparr>))"

text \<open>
  \<open>delete_employee\<close>: the lookup, then the delete and the commit. The handler catches
  nothing, so the refusal of the store leaves it as \<open>IntegrityError\<close> and the session is
  closed without any change.
\<close>

definition delete_employee :: "int \<Rightarrow> db \<Rightarrow> (error + unit) \<times> db" where
  "delete_employee employee_id s =
     (case find (\<lambda>e. e_id e = employee_id) (employees s) of
        None \<Rightarrow> (Inl (HTTPException 404 (EmployeeNotFound employee_id)), s)
      | Some db_employee \<Rightarrow>
          (case db_delete_employee db_employee s of
             None \<Rightarrow> (Inl IntegrityError, s)
           | Some s' \<Rightarrow> (Inr (), s')))"

section \<open>Example stores\<close>

text \<open>
  Dates used in the examples: 2024-01-01 is ordinal 738886, 2024-01-04 is 738889,
  2024-01-05 is 738890, 2024-01-10 is 738895, 2024-12-01 is 739221, 2024-12-20 is 739240,
  2024-12-25 is 739245, 2024-12-26 is 739246, 2024-12-31 is 739251.
\<close>

definition example_employee :: "int \<Rightarrow> int \<Rightarrow> EmployeeModel" where
  "example_employee i dept =
     \<lparr>e_id = i, e_first_name = ''John'', e_last_name = ''Doe'',
      e_email = ''john.doe@company.com'', e_phone = ''+1234567890'',
      e_department_id = dept, e_position = ''Software Engineer'',
      e_hire_date = 738900, e_salary = 75000, e_status = ACTIVE\<rparr>"

definition example_department :: "int \<Rightarrow> int option \<Rightarrow> DepartmentModel" where
  "example_department i manager =
     \<lparr>d_id = i, d_name = ''Engineering'',
      d_description = ''Software development and engineering team'',
      d_manager_id = manager\<rparr>"

definition example_leave :: "int \<Rightarrow> int \<Rightarrow> date \<Rightarrow> date \<Rightarrow> LeaveStatus \<Rightarrow> LeaveRequestModel" where
  "example_leave i employee a b st =
     \<lparr>l_id = i, l_employee_id = employee, l_leave_type = VACATION,
      l_start_date = a, l_end_date = b, l_reason = ''Year-end vacation'',
      l_status = st, l_approved_by = None, l_created_at = 739221\<rparr>"

text \<open>
  Two departments, employees 1 and 2 in department 1, no leave request; department 2 has
  no employee.
\<close>

definition store0 :: db where
  "store0 =
     \<lparr>departments = [example_department 1 (Some 2), example_department 2 None],
      employees = [example_employee 1 1, example_employee 2 1],
      leave_requests = [],
      leave_requests_id_seq = 1\<rparr>"

text \<open>\<open>store0\<close> with one pending request of employee 1 from 2024-01-01 to 2024-01-05.\<close>

definition store1 :: db where
  "store1 =
     store0\<lparr>leave_requests := [example_leave 1 1 738886 738890 PENDING],
            leave_requests_id_seq := 2\<rparr>"

text \<open>
  \<open>store0\<close> with an approved request of employee 1 from 2024-12-20 to 2024-12-31 and a
  pending request of the same employee from 2024-01-01 to 2024-01-04.
\<close>

definition store2 :: db where
  "store2 =
     store0\<lparr>leave_requests := [example_leave 1 1 739240 739251 APPROVED,
                                example_leave 2 1 738886 738889 PENDING],
            leave_requests_id_seq := 3\<rparr>"


definition example_create :: "date \<Rightarrow> date \<Rightarrow> LeaveRequestCreate" where
  "example_create a b =
     \<lparr>c_employee_id = 1, c_leave_type = VACATION, c_start_date = a, c_end_date = b,
      c_reason = ''Year-end vacation''\<rparr>"

section \<open>Creating a leave request\<close>

lemma find_overlapping_Some:
  assumes "r \<in> set rows" and "overlapping_filter leave_request r"
  shows "\<exists>x. find (overlapping_filter leave_request) rows = Some x \<and> x \<in> set rows \<and>
             overlapping_filter leave_request x"
proof (cases "find (overlapping_filter leave_request) rows")
  case None
  with assms show ?thesis by (auto simp: find_None_iff)
next
  case (Some x)
  then show ?thesis by (auto simp: find_Some_iff)
qed

text \<open>
  C1. When the employee exists, the range is valid, and some stored request of the same
  employee with status pending or approved has a closed range that intersects the new
  one, \<open>create_leave_request\<close> raises the overlap exception (400, naming one such stored
  request) and the store is unchanged. Ranges that share one endpoint day intersect.
\<close>

theorem create_overlap_rejected:
  assumes "find (\<lambda>e. e_id e = c_employee_id leave_request) (employees s) = Some employee"
    and "c_start_date leave_request \<le> c_end_date leave_request"
    and "r \<in> set (leave_requests s)"
    and "l_employee_id r = c_employee_id leave_request"
    and "l_status r = PENDING \<or> l_status r = APPROVED"
    and "\<not> (l_end_date r < c_start_date leave_request \<or>
            l_start_date r > c_end_date leave_request)"
  shows "\<exists>x \<in> set (leave_requests s). overlapping_filter leave_request x \<and>
           create_leave_request today leave_request s =
             (Inl (HTTPException 400 (Overlapping (l_id x))), s)"
proof -
  from assms(4-6) have "overlapping_filter leave_request r"
    by (auto simp: overlapping_filter_def)
  from find_overlapping_Some [OF assms(3) this] obtain x
    where x: "find (overlapping_filter leave_request) (leave_requests s) = Some x"
      "x \<in> set (leave_requests s)" "overlapping_filter leave_request x"
    by blast
  from assms(2) have "\<not> c_end_date leave_request < c_start_date leave_request"
    by simp
  with assms(1) x(1) have
    "create_leave_request today leave_request s =
       (Inl (HTTPException 400 (Overlapping (l_id x))), s)"
    by (simp add: create_leave_request_def)
  with x(2,3) show ?thesis by blast
qed

text \<open>
  The boundary case: with the request from 2024-01-01 to 2024-01-05 stored, a request of
  the same employee from 2024-01-05 to 2024-01-10 is rejected.
\<close>

theorem create_overlap_rejected_witness:
  "create_leave_request 739221 (example_create 738890 738895) store1 =
     (Inl (HTTPException 400 (Overlapping 1)), store1)"
proof -
  have "\<exists>x \<in> set (leave_requests store1).
          overlapping_filter (example_create 738890 738895) x \<and>
          create_leave_request 739221 (example_create 738890 738895) store1 =
            (Inl (HTTPException 400 (Overlapping (l_id x))), store1)"
    by (rule create_overlap_rejected
          [where r = "example_leave 1 1 738886 738890 PENDING"
             and employee = "example_employee 1 1"])
       (simp_all add: store1_def store0_def example_create_def example_leave_def
          example_employee_def)
  then show ?thesis
    by (simp add: store1_def store0_def example_leave_def)
qed




section \<open>Requests that are no longer pending\<close>

text \<open>
  C3. When the stored request with the given id has status approved, rejected or
  cancelled, \<open>update_leave_request\<close>, \<open>delete_leave_request\<close> (the cancel operation) and
  \<open>approve_leave_request\<close> each raise their status exception (400, naming the stored
  status), whatever the other arguments are, and leave the store unchanged.
\<close>

theorem not_pending_invalid_state:
  assumes "find (\<lambda>r. l_id r = leave_id) (leave_requests s) = Some db_leave"
    and "l_status db_leave \<in> {APPROVED, REJECTED, CANCELLED}"
  shows "update_leave_request leave_id leave_update s =
           (Inl (HTTPException 400 (CannotUpdate (l_status db_leave))), s) \<and>
         delete_leave_request leave_id s =
           (Inl (HTTPException 400 (CannotDelete (l_status db_leave))), s) \<and>
         approve_leave_request leave_id approval s =
           (Inl (HTTPException 400 (CannotApprove (l_status db_leave))), s)"
proof -
  from assms(2) have "l_status db_leave \<noteq> PENDING" by auto
  with assms(1) show ?thesis
    by (simp add: update_leave_request_def delete_leave_request_def
          approve_leave_request_def)
qed

text \<open>
  Request 1 of \<open>store2\<close> is approved: an update that only changes the reason, the
  cancellation, and an approval by the existing employee 2 are all refused.
\<close>

theorem not_pending_invalid_state_witness:
  "update_leave_request 1
     \<lparr>u_leave_type = None, u_start_date = None, u_end_date = None,
      u_reason = Some (Some ''moved'')\<rparr> store2 =
     (Inl (HTTPException 400 (CannotUpdate APPROVED)), store2) \<and>
   delete_leave_request 1 store2 =
     (Inl (HTTPException 400 (CannotDelete APPROVED)), store2) \<and>
   approve_leave_request 1
     \<lparr>a_approved = True, a_approved_by = 2, a_comments = None\<rparr> store2 =
     (Inl (HTTPException 400 (CannotApprove APPROVED)), store2)"
proof -
  have f: "find (\<lambda>r. l_id r = 1) (leave_requests store2)
             = Some (example_leave 1 1 739240 739251 APPROVED)"
    by (simp add: store2_def store0_def example_leave_def)
  have st: "l_status (example_leave 1 1 739240 739251 APPROVED)
              \<in> {APPROVED, REJECTED, CANCELLED}"
    by (simp add: example_leave_def)
  show ?thesis
    using not_pending_invalid_state [OF f st] by (simp add: example_leave_def)
qed

section \<open>Approving or rejecting\<close>

lemma find_leave_id:
  "find (\<lambda>r. l_id r = k) rows = Some x \<Longrightarrow> l_id x = k"
  by (auto simp: find_Some_iff)

lemma find_after_commit:
  assumes "find (\<lambda>r. l_id r = k) rows = Some x" and "l_id row = k"
  shows "find (\<lambda>r. l_id r = k) (map (\<lambda>r. if l_id r = k then row else r) rows) = Some row"
  using assms by (induction rows) (auto split: if_splits)

text \<open>
  C4. On an existing pending request with an existing approver,
  \<open>approve_leave_request\<close> succeeds. The stored row becomes the old row with status
  approved (when \<open>approved\<close> is true) or rejected (when it is false) and with
  \<open>approved_by\<close> set to the approver; every other column of the row and every other
  row is unchanged, and the response is the new row. The row type has no column for
  comments, and the result is the same whatever \<open>comments\<close> holds.
\<close>

theorem approve_sets_status_and_approver:
  fixes row :: "LeaveRequestModel \<Rightarrow> LeaveApproval \<Rightarrow> LeaveRequestModel"
  defines "row \<equiv> \<lambda>db_leave approval.
             db_leave\<lparr>l_status := (if a_approved approval then APPROVED else REJECTED),
                      l_approved_by := Some (a_approved_by approval)\<rparr>"
  assumes found: "find (\<lambda>r. l_id r = leave_id) (leave_requests s) = Some db_leave"
    and pending: "l_status db_leave = PENDING"
    and approver: "find (\<lambda>e. e_id e = a_approved_by approval) (employees s) = Some approver"
  shows "approve_leave_request leave_id approval s =
           (Inr (db_leave_to_schema (row db_leave approval)),
            s\<lparr>leave_requests :=
                 map (\<lambda>r. if l_id r = leave_id then row db_leave approval else r)
                   (leave_requests s)\<rparr>) \<and>
         find (\<lambda>r. l_id r = leave_id)
           (leave_requests (snd (approve_leave_request leave_id approval s))) =
           Some (row db_leave approval) \<and>
         (\<forall>c. approve_leave_request leave_id (approval\<lparr>a_comments := c\<rparr>) s =
              approve_leave_request leave_id approval s)"
proof -
  have k: "l_id db_leave = leave_id"
    using found by (rule find_leave_id)
  have run: "approve_leave_request leave_id ap s =
           (Inr (db_leave_to_schema (row db_leave ap)),
            s\<lparr>leave_requests :=
                 map (\<lambda>r. if l_id r = leave_id then row db_leave ap else r)
                   (leave_requests s)\<rparr>)"
    if "a_approved_by ap = a_approved_by approval" for ap
    using found pending approver k that
    by (simp add: approve_leave_request_def db_commit_leave_def row_def Let_def)
  have stored: "find (\<lambda>r. l_id r = leave_id)
           (leave_requests (snd (approve_leave_request leave_id approval s))) =
           Some (row db_leave approval)"
    using find_after_commit [OF found, of "row db_leave approval"] k
    by (simp add: run row_def)
  have "approve_leave_request leave_id (approval\<lparr>a_comments := c\<rparr>) s =
          approve_leave_request leave_id approval s" for c
    by (simp add: run row_def)
  with run [of approval] stored show ?thesis by simp
qed

text \<open>
  Request 1 of \<open>store1\<close> is pending and employee 2 exists: approving it with a comment
  stores status approved and approver 2, and the comment is nowhere in the result.
\<close>

theorem approve_sets_status_and_approver_witness:
  "approve_leave_request 1
     \<lparr>a_approved = True, a_approved_by = 2, a_comments = Some ''enjoy''\<rparr> store1 =
     (Inr (db_leave_to_schema
            ((example_leave 1 1 738886 738890 APPROVED)\<lparr>l_approved_by := Some 2\<rparr>)),
      store1\<lparr>leave_requests :=
               [(example_leave 1 1 738886 738890 APPROVED)\<lparr>l_approved_by := Some 2\<rparr>]\<rparr>)"
proof -
  have f: "find (\<lambda>r. l_id r = 1) (leave_requests store1)
             = Some (example_leave 1 1 738886 738890 PENDING)"
    by (simp add: store1_def store0_def example_leave_def)
  have p: "l_status (example_leave 1 1 738886 738890 PENDING) = PENDING"
    by (simp add: example_leave_def)
  have a: "find (\<lambda>e. e_id e =
                  a_approved_by \<lparr>a_approved = True, a_approved_by = 2,
                                 a_comments = Some ''enjoy''\<rparr>) (employees store1)
             = Some (example_employee 2 1)"
    by (simp add: store1_def store0_def example_employee_def)
  show ?thesis
    using approve_sets_status_and_approver [OF f p a]
    by (simp add: store1_def store0_def example_leave_def)
qed

text \<open>
  C7, as stated, fails: the status check of \<open>approve_leave_request\<close> (lines 247 to 252)
  comes before the approver lookup (lines 254 to 260). Request 1 of \<open>store2\<close> exists and is
  approved, no employee has id 99, and the approval by 99 raises the status exception,
  not the exception for the unknown approver.
\<close>

theorem approve_unknown_approver_counterexample:
  "1 \<in> set (map l_id (leave_requests store2)) \<and>
   99 \<notin> set (map e_id (employees store2)) \<and>
   fst (approve_leave_request 1
          \<lparr>a_approved = True, a_approved_by = 99, a_comments = None\<rparr> store2) =
     Inl (HTTPException 400 (CannotApprove APPROVED)) \<and>
   fst (approve_leave_request 1
          \<lparr>a_approved = True, a_approved_by = 99, a_comments = None\<rparr> store2) \<noteq>
     Inl (HTTPException 400 (ApproverDoesNotExist 99))"
  by (simp add: approve_leave_request_def store2_def store0_def example_leave_def
        example_employee_def)

text \<open>
  C7, amended. When the request exists and the approver does not, the outcome depends
  on the stored status: a pending request gives the exception for the unknown approver
  (NotFound in the specification's terms), any other status gives the status exception
  (InvalidState). The store is unchanged in both cases.
\<close>

theorem approve_unknown_approver:
  assumes "find (\<lambda>r. l_id r = leave_id) (leave_requests s) = Some db_leave"
    and "find (\<lambda>e. e_id e = a_approved_by approval) (employees s) = None"
  shows "approve_leave_request leave_id approval s =
           (if l_status db_leave = PENDING
            then (Inl (HTTPException 400 (ApproverDoesNotExist (a_approved_by approval))), s)
            else (Inl (HTTPException 400 (CannotApprove (l_status db_leave))), s))"
  using assms by (simp add: approve_leave_request_def)

text \<open>Request 1 of \<open>store1\<close> is pending; an approval by the unknown employee 99.\<close>

theorem approve_unknown_approver_witness:
  "approve_leave_request 1
     \<lparr>a_approved = False, a_approved_by = 99, a_comments = None\<rparr> store1 =
     (Inl (HTTPException 400 (ApproverDoesNotExist 99)), store1)"
proof -
  have f: "find (\<lambda>r. l_id r = 1) (leave_requests store1)
             = Some (example_leave 1 1 738886 738890 PENDING)"
    by (simp add: store1_def store0_def example_leave_def)
  have a: "find (\<lambda>e. e_id e =
                  a_approved_by \<lparr>a_approved = False, a_approved_by = 99,
                                 a_comments = None\<rparr>) (employees store1) = None"
    by (simp add: store1_def store0_def example_employee_def)
  show ?thesis
    using approve_unknown_approver [OF f a] by (simp add: example_leave_def)
qed

section \<open>Updating a pending request\<close>

lemma dict_get_simps:
  "dict_get None d = d" "dict_get (Some v) d = v"
  by (simp_all add: dict_get_def)

lemma py_lt_Some_iff:
  "py_lt x y = Some c \<longleftrightarrow> (\<exists>a b. x = Some a \<and> y = Some b \<and> c = (a < b))"
  by (auto simp: py_lt_def split: option.splits)

lemma py_lt_None_iff:
  "py_lt x y = None \<longleftrightarrow> x = None \<or> y = None"
  by (auto simp: py_lt_def split: option.splits)

lemma setattr_all_Some_iff:
  "setattr_all u r = Some row \<longleftrightarrow>
     (\<exists>t a b rs.
        dict_get (u_leave_type u) (Some (l_leave_type r)) = Some t \<and>
        dict_get (u_start_date u) (Some (l_start_date r)) = Some a \<and>
        dict_get (u_end_date u) (Some (l_end_date r)) = Some b \<and>
        dict_get (u_reason u) (Some (l_reason r)) = Some rs \<and>
        row = r\<lparr>l_leave_type := t, l_start_date := a, l_end_date := b, l_reason := rs\<rparr>)"
  by (auto simp: setattr_all_def split: option.splits)

lemma dict_get_Some_default:
  "dict_get f (Some d) = None \<longleftrightarrow> f = Some None"
  by (auto simp: dict_get_def split: option.splits)

text \<open>The outcomes of an update on a pending request.\<close>

lemma update_pending_cases:
  assumes found: "find (\<lambda>r. l_id r = leave_id) (leave_requests s) = Some db_leave"
    and pending: "l_status db_leave = PENDING"
  shows "update_leave_request leave_id leave_update s =
     (case py_lt (dict_get (u_end_date leave_update) (Some (l_end_date db_leave)))
                 (dict_get (u_start_date leave_update) (Some (l_start_date db_leave))) of
        None \<Rightarrow> (Inl TypeError, s)
      | Some True \<Rightarrow> (Inl (HTTPException 400 EndBeforeStart), s)
      | Some False \<Rightarrow>
          (case setattr_all leave_update db_leave of
             None \<Rightarrow> (Inl IntegrityError, s)
           | Some row \<Rightarrow> (Inr (db_leave_to_schema row), db_commit_leave row s)))"
  using assms by (simp add: update_leave_request_def Let_def)



lemma setattr_all_keeps:
  assumes "setattr_all u r = Some row"
  shows "l_id row = l_id r" "l_employee_id row = l_employee_id r" "l_status row = l_status r"
    "l_approved_by row = l_approved_by r" "l_created_at row = l_created_at r"
    "Some (l_leave_type row) = dict_get (u_leave_type u) (Some (l_leave_type r))"
    "Some (l_start_date row) = dict_get (u_start_date u) (Some (l_start_date r))"
    "Some (l_end_date row) = dict_get (u_end_date u) (Some (l_end_date r))"
    "Some (l_reason row) = dict_get (u_reason u) (Some (l_reason r))"
proof -
  from assms obtain t a b rs where
    "dict_get (u_leave_type u) (Some (l_leave_type r)) = Some t"
    "dict_get (u_start_date u) (Some (l_start_date r)) = Some a"
    "dict_get (u_end_date u) (Some (l_end_date r)) = Some b"
    "dict_get (u_reason u) (Some (l_reason r)) = Some rs"
    "row = r\<lparr>l_leave_type := t, l_start_date := a, l_end_date := b, l_reason := rs\<rparr>"
    unfolding setattr_all_Some_iff by blast
  then show "l_id row = l_id r" "l_employee_id row = l_employee_id r" "l_status row = l_status r"
    "l_approved_by row = l_approved_by r" "l_created_at row = l_created_at r"
    "Some (l_leave_type row) = dict_get (u_leave_type u) (Some (l_leave_type r))"
    "Some (l_start_date row) = dict_get (u_start_date u) (Some (l_start_date r))"
    "Some (l_end_date row) = dict_get (u_end_date u) (Some (l_end_date r))"
    "Some (l_reason row) = dict_get (u_reason u) (Some (l_reason r))"
    by simp_all
qed

lemma update_range_error_iff:
  assumes found: "find (\<lambda>r. l_id r = leave_id) (leave_requests s) = Some db_leave"
    and pending: "l_status db_leave = PENDING"
  shows "fst (update_leave_request leave_id leave_update s) =
            Inl (HTTPException 400 EndBeforeStart) \<longleftrightarrow>
          (\<exists>a b. dict_get (u_start_date leave_update) (Some (l_start_date db_leave)) = Some a \<and>
                 dict_get (u_end_date leave_update) (Some (l_end_date db_leave)) = Some b \<and>
                 b < a)"
proof (cases "dict_get (u_end_date leave_update) (Some (l_end_date db_leave))")
  case None
  then show ?thesis
    unfolding update_pending_cases [OF found pending] by (simp add: py_lt_def)
next
  case e: (Some b)
  show ?thesis
  proof (cases "dict_get (u_start_date leave_update) (Some (l_start_date db_leave))")
    case None
    then show ?thesis
      unfolding update_pending_cases [OF found pending] by (simp add: py_lt_def e)
  next
    case (Some a)
    then show ?thesis
      unfolding update_pending_cases [OF found pending]
      by (cases "b < a"; cases "setattr_all leave_update db_leave") (simp_all add: py_lt_def e)
  qed
qed

lemma update_success_row:
  assumes found: "find (\<lambda>r. l_id r = leave_id) (leave_requests s) = Some db_leave"
    and pending: "l_status db_leave = PENDING"
    and ok: "update_leave_request leave_id leave_update s = (Inr resp, s')"
  shows "\<exists>row. setattr_all leave_update db_leave = Some row \<and>
           resp = db_leave_to_schema row \<and> s' = db_commit_leave row s"
proof (cases "py_lt (dict_get (u_end_date leave_update) (Some (l_end_date db_leave)))
                 (dict_get (u_start_date leave_update) (Some (l_start_date db_leave)))")
  case None
  with ok show ?thesis
    unfolding update_pending_cases [OF found pending] by simp
next
  case (Some c)
  show ?thesis
  proof (cases c)
    case True
    with Some ok show ?thesis
      unfolding update_pending_cases [OF found pending] by simp
  next
    case False
    with Some ok show ?thesis
      unfolding update_pending_cases [OF found pending]
      by (cases "setattr_all leave_update db_leave") simp_all
  qed
qed


text \<open>
  C6. For an update of an existing pending request, the effective start and end dates
  are \<open>update_data.get\<close> of the field with the stored value as default: the stored value
  when the field was not sent, the value sent otherwise. The range exception (400) is
  raised exactly when both effective values are dates and the end is strictly before the
  start. On success the stored row and the response take, for each of the four fields of
  the body, the value sent or else the prior value; the id, employee, status, approver
  and creation date are the prior ones, and no other row changes.
\<close>

theorem update_effective_range:
  assumes found: "find (\<lambda>r. l_id r = leave_id) (leave_requests s) = Some db_leave"
    and pending: "l_status db_leave = PENDING"
  shows "(fst (update_leave_request leave_id leave_update s) =
            Inl (HTTPException 400 EndBeforeStart) \<longleftrightarrow>
          (\<exists>a b. dict_get (u_start_date leave_update) (Some (l_start_date db_leave)) = Some a \<and>
                 dict_get (u_end_date leave_update) (Some (l_end_date db_leave)) = Some b \<and>
                 b < a)) \<and>
         (\<forall>resp s'. update_leave_request leave_id leave_update s = (Inr resp, s') \<longrightarrow>
            (\<exists>row. resp = db_leave_to_schema row \<and>
               s' = s\<lparr>leave_requests :=
                        map (\<lambda>r. if l_id r = leave_id then row else r) (leave_requests s)\<rparr> \<and>
               find (\<lambda>r. l_id r = leave_id) (leave_requests s') = Some row \<and>
               Some (l_leave_type row) =
                 dict_get (u_leave_type leave_update) (Some (l_leave_type db_leave)) \<and>
               Some (l_start_date row) =
                 dict_get (u_start_date leave_update) (Some (l_start_date db_leave)) \<and>
               Some (l_end_date row) =
                 dict_get (u_end_date leave_update) (Some (l_end_date db_leave)) \<and>
               Some (l_reason row) =
                 dict_get (u_reason leave_update) (Some (l_reason db_leave)) \<and>
               l_id row = l_id db_leave \<and>
               l_employee_id row = l_employee_id db_leave \<and>
               l_status row = l_status db_leave \<and>
               l_approved_by row = l_approved_by db_leave \<and>
               l_created_at row = l_created_at db_leave))"
proof (intro conjI allI impI)
  show "fst (update_leave_request leave_id leave_update s) =
            Inl (HTTPException 400 EndBeforeStart) \<longleftrightarrow>
          (\<exists>a b. dict_get (u_start_date leave_update) (Some (l_start_date db_leave)) = Some a \<and>
                 dict_get (u_end_date leave_update) (Some (l_end_date db_leave)) = Some b \<and>
                 b < a)"
    by (rule update_range_error_iff [OF found pending])
next
  fix resp s'
  assume ok: "update_leave_request leave_id leave_update s = (Inr resp, s')"
  have k: "l_id db_leave = leave_id"
    using found by (rule find_leave_id)
  from update_success_row [OF found pending ok] obtain row
    where row: "setattr_all leave_update db_leave = Some row"
      and resp: "resp = db_leave_to_schema row" and s': "s' = db_commit_leave row s"
    by blast
  note keeps = setattr_all_keeps [OF row]
  have id: "l_id row = leave_id"
    using keeps(1) k by simp
  have stored: "find (\<lambda>r. l_id r = leave_id) (leave_requests s') = Some row"
    using find_after_commit [OF found id] id by (simp add: s' db_commit_leave_def)
  have store: "s' = s\<lparr>leave_requests :=
                        map (\<lambda>r. if l_id r = leave_id then row else r) (leave_requests s)\<rparr>"
    using id by (simp add: s' db_commit_leave_def)
  show "\<exists>row. resp = db_leave_to_schema row \<and>
               s' = s\<lparr>leave_requests :=
                        map (\<lambda>r. if l_id r = leave_id then row else r) (leave_requests s)\<rparr> \<and>
               find (\<lambda>r. l_id r = leave_id) (leave_requests s') = Some row \<and>
               Some (l_leave_type row) =
                 dict_get (u_leave_type leave_update) (Some (l_leave_type db_leave)) \<and>
               Some (l_start_date row) =
                 dict_get (u_start_date leave_update) (Some (l_start_date db_leave)) \<and>
               Some (l_end_date row) =
                 dict_get (u_end_date leave_update) (Some (l_end_date db_leave)) \<and>
               Some (l_reason row) =
                 dict_get (u_reason leave_update) (Some (l_reason db_leave)) \<and>
               l_id row = l_id db_leave \<and>
               l_employee_id row = l_employee_id db_leave \<and>
               l_status row = l_status db_leave \<and>
               l_approved_by row = l_approved_by db_leave \<and>
               l_created_at row = l_created_at db_leave"
    using resp store stored keeps by (intro exI [of _ row] conjI)
qed

text \<open>
  Request 2 of \<open>store2\<close> is pending, from 2024-01-01 to 2024-01-04. Moving only its end to
  2023-12-26 (ordinal 738880) is refused; changing only its reason keeps every other field.
\<close>

theorem update_effective_range_witness:
  "fst (update_leave_request 2
          \<lparr>u_leave_type = None, u_start_date = None, u_end_date = Some (Some 738880),
           u_reason = None\<rparr> store2) = Inl (HTTPException 400 EndBeforeStart) \<and>
   update_leave_request 2
     \<lparr>u_leave_type = None, u_start_date = None, u_end_date = None,
      u_reason = Some (Some ''moved'')\<rparr> store2 =
     (Inr (db_leave_to_schema
            ((example_leave 2 1 738886 738889 PENDING)\<lparr>l_reason := ''moved''\<rparr>)),
      store2\<lparr>leave_requests :=
               [example_leave 1 1 739240 739251 APPROVED,
                (example_leave 2 1 738886 738889 PENDING)\<lparr>l_reason := ''moved''\<rparr>]\<rparr>)"
proof -
  have f: "find (\<lambda>r. l_id r = 2) (leave_requests store2)
             = Some (example_leave 2 1 738886 738889 PENDING)"
    by (simp add: store2_def store0_def example_leave_def)
  have p: "l_status (example_leave 2 1 738886 738889 PENDING) = PENDING"
    by (simp add: example_leave_def)
  have ok: "update_leave_request 2
     \<lparr>u_leave_type = None, u_start_date = None, u_end_date = None,
      u_reason = Some (Some ''moved'')\<rparr> store2 =
     (Inr (db_leave_to_schema
            ((example_leave 2 1 738886 738889 PENDING)\<lparr>l_reason := ''moved''\<rparr>)),
      store2\<lparr>leave_requests :=
               [example_leave 1 1 739240 739251 APPROVED,
                (example_leave 2 1 738886 738889 PENDING)\<lparr>l_reason := ''moved''\<rparr>]\<rparr>)"
    unfolding update_pending_cases [OF f p]
    by (simp add: dict_get_def py_lt_def setattr_all_def db_commit_leave_def
          example_leave_def store2_def store0_def)
  show ?thesis
    using update_effective_range [OF f p,
            of "\<lparr>u_leave_type = None, u_start_date = None,
                 u_end_date = Some (Some 738880), u_reason = None\<rparr>"] ok
    by (simp add: dict_get_def example_leave_def)
qed

lemma map_keeps_fixed: "x \<in> set xs \<Longrightarrow> f x = x \<Longrightarrow> x \<in> set (map f xs)"
  by (induction xs) auto

lemma update_never_conflict:
  "fst (update_leave_request i u t) \<noteq> Inl (HTTPException c (Overlapping k))"
  unfolding update_leave_request_def Let_def
  by (simp split: option.splits bool.splits)

text \<open>
  C5, as stated, fails: an update whose effective range intersects another active
  request of the same employee does not always succeed. Request 2 of \<open>store2\<close> is
  pending and request 1 of the same employee is approved, from 2024-12-20 to 2024-12-31.
  An update of request 2 to 2024-12-25 .. 2024-12-26 that also sends the reason as an
  explicit null ends in \<open>IntegrityError\<close>; an update to start 2024-12-26 and end
  2024-12-25, which the overlap formula of the specification still counts as
  intersecting request 1, raises the range exception. Neither is the overlap exception.
\<close>

theorem update_skips_overlap_check_counterexample:
  "map l_id (leave_requests store2) = [1, 2] \<and>
   map l_employee_id (leave_requests store2) = [1, 1] \<and>
   map l_status (leave_requests store2) = [APPROVED, PENDING] \<and>
   map l_start_date (leave_requests store2) = [739240, 738886] \<and>
   map l_end_date (leave_requests store2) = [739251, 738889] \<and>
   update_leave_request 2
     \<lparr>u_leave_type = None, u_start_date = Some (Some 739245),
      u_end_date = Some (Some 739246), u_reason = Some None\<rparr> store2 =
     (Inl IntegrityError, store2) \<and>
   \<not> ((739251::nat) < 739246 \<or> (739240::nat) > 739245) \<and>
   update_leave_request 2
     \<lparr>u_leave_type = None, u_start_date = Some (Some 739246),
      u_end_date = Some (Some 739245), u_reason = None\<rparr> store2 =
     (Inl (HTTPException 400 EndBeforeStart), store2)"
  by (simp add: update_leave_request_def dict_get_def py_lt_def setattr_all_def
        store2_def store0_def example_leave_def)

text \<open>
  C5, amended. \<open>update_leave_request\<close> has no overlap query, and no update ever ends in
  the overlap exception. On an existing pending request, an update that sends no field
  as an explicit null and whose effective start is not after its effective end succeeds
  with that range, although another stored request of the same employee with status
  pending or approved intersects the range; that other request stays stored.
\<close>

theorem update_skips_overlap_check:
  assumes found: "find (\<lambda>r. l_id r = leave_id) (leave_requests s) = Some db_leave"
    and pending: "l_status db_leave = PENDING"
    and start: "dict_get (u_start_date leave_update) (Some (l_start_date db_leave)) = Some a"
    and "end": "dict_get (u_end_date leave_update) (Some (l_end_date db_leave)) = Some b"
    and range: "a \<le> b"
    and no_null: "u_leave_type leave_update \<noteq> Some None" "u_reason leave_update \<noteq> Some None"
    and other: "other \<in> set (leave_requests s)" "l_id other \<noteq> leave_id"
      "l_employee_id other = l_employee_id db_leave"
      "l_status other = PENDING \<or> l_status other = APPROVED"
      "\<not> (l_end_date other < a \<or> l_start_date other > b)"
  shows "(\<exists>row. update_leave_request leave_id leave_update s =
                 (Inr (db_leave_to_schema row), db_commit_leave row s) \<and>
               l_employee_id row = l_employee_id db_leave \<and>
               l_status row = PENDING \<and>
               l_start_date row = a \<and> l_end_date row = b \<and>
               other \<in> set (leave_requests (db_commit_leave row s))) \<and>
         (\<forall>i u t c k. fst (update_leave_request i u t) \<noteq>
                         Inl (HTTPException c (Overlapping k)))"
proof -
  from no_null(1) obtain t
    where t: "dict_get (u_leave_type leave_update) (Some (l_leave_type db_leave)) = Some t"
    by (cases "dict_get (u_leave_type leave_update) (Some (l_leave_type db_leave))")
       (simp_all add: dict_get_Some_default)
  from no_null(2) obtain rs
    where rs: "dict_get (u_reason leave_update) (Some (l_reason db_leave)) = Some rs"
    by (cases "dict_get (u_reason leave_update) (Some (l_reason db_leave))")
       (simp_all add: dict_get_Some_default)
  define row where "row = db_leave\<lparr>l_leave_type := t, l_start_date := a, l_end_date := b,
                                  l_reason := rs\<rparr>"
  have set: "setattr_all leave_update db_leave = Some row"
    using t rs start "end" by (simp add: setattr_all_def row_def)
  have lt: "py_lt (dict_get (u_end_date leave_update) (Some (l_end_date db_leave)))
                 (dict_get (u_start_date leave_update) (Some (l_start_date db_leave))) = Some False"
    using start "end" range by (simp add: py_lt_def)
  have run: "update_leave_request leave_id leave_update s =
                 (Inr (db_leave_to_schema row), db_commit_leave row s)"
    unfolding update_pending_cases [OF found pending] by (simp add: lt set)
  have k: "l_id db_leave = leave_id"
    using found by (rule find_leave_id)
  have "(\<lambda>r. if l_id r = l_id row then row else r) other = other"
    using other(2) k by (simp add: row_def)
  with other(1)
  have "other \<in> set (map (\<lambda>r. if l_id r = l_id row then row else r) (leave_requests s))"
    by (rule map_keeps_fixed)
  then have kept: "other \<in> set (leave_requests (db_commit_leave row s))"
    unfolding db_commit_leave_def by simp
  have fields: "l_employee_id row = l_employee_id db_leave" "l_status row = PENDING"
    "l_start_date row = a" "l_end_date row = b"
    using pending by (simp_all add: row_def)
  from run fields kept
  have "\<exists>row. update_leave_request leave_id leave_update s =
                 (Inr (db_leave_to_schema row), db_commit_leave row s) \<and>
               l_employee_id row = l_employee_id db_leave \<and>
               l_status row = PENDING \<and>
               l_start_date row = a \<and> l_end_date row = b \<and>
               other \<in> set (leave_requests (db_commit_leave row s))"
    by (intro exI [of _ row] conjI)
  then show ?thesis
    using update_never_conflict by blast
qed

text \<open>
  Request 2 of \<open>store2\<close> is moved to 2024-12-25 .. 2024-12-26, inside the approved request 1
  of the same employee (2024-12-20 .. 2024-12-31): the update is accepted.
\<close>

theorem update_skips_overlap_check_witness:
  "update_leave_request 2
     \<lparr>u_leave_type = None, u_start_date = Some (Some 739245),
      u_end_date = Some (Some 739246), u_reason = None\<rparr> store2 =
     (Inr (db_leave_to_schema (example_leave 2 1 739245 739246 PENDING)),
      store2\<lparr>leave_requests :=
               [example_leave 1 1 739240 739251 APPROVED,
                example_leave 2 1 739245 739246 PENDING]\<rparr>)"
proof -
  have "(\<exists>row. update_leave_request 2
                 \<lparr>u_leave_type = None, u_start_date = Some (Some 739245),
                  u_end_date = Some (Some 739246), u_reason = None\<rparr> store2 =
                 (Inr (db_leave_to_schema row), db_commit_leave row store2) \<and>
               l_employee_id row = l_employee_id (example_leave 2 1 738886 738889 PENDING) \<and>
               l_status row = PENDING \<and>
               l_start_date row = 739245 \<and> l_end_date row = 739246 \<and>
               example_leave 1 1 739240 739251 APPROVED
                 \<in> set (leave_requests (db_commit_leave row store2))) \<and>
        (\<forall>i u t c k. fst (update_leave_request i u t) \<noteq>
                        Inl (HTTPException c (Overlapping k)))"
    by (rule update_skips_overlap_check)
       (simp_all add: store2_def store0_def example_leave_def dict_get_def)
  then obtain row where
    run: "update_leave_request 2
            \<lparr>u_leave_type = None, u_start_date = Some (Some 739245),
             u_end_date = Some (Some 739246), u_reason = None\<rparr> store2 =
            (Inr (db_leave_to_schema row), db_commit_leave row store2)"
    by blast
  have f: "find (\<lambda>r. l_id r = 2) (leave_requests store2)
             = Some (example_leave 2 1 738886 738889 PENDING)"
    by (simp add: store2_def store0_def example_leave_def)
  have p: "l_status (example_leave 2 1 738886 738889 PENDING) = PENDING"
    by (simp add: example_leave_def)
  have direct: ?thesis
    unfolding update_pending_cases [OF f p]
    by (simp add: dict_get_def py_lt_def setattr_all_def db_commit_leave_def
          example_leave_def store2_def store0_def)
  from run show ?thesis
    by - (rule direct)
qed

section \<open>Failed operations\<close>

lemma create_failure_keeps_store:
  "fst (create_leave_request today leave_request s) = Inl e \<Longrightarrow>
   snd (create_leave_request today leave_request s) =
     (if e = IntegrityError
      then s\<lparr>leave_requests_id_seq := leave_requests_id_seq s + 1\<rparr> else s)"
  unfolding create_leave_request_def db_add_leave_def Let_def
  by (cases "find (\<lambda>e. e_id e = c_employee_id leave_request) (employees s)";
      cases "c_end_date leave_request < c_start_date leave_request";
      cases "find (overlapping_filter leave_request) (leave_requests s)";
      cases "leave_requests_id_seq s \<in> set (map l_id (leave_requests s))")
     auto

lemma update_failure_keeps_store:
  "fst (update_leave_request leave_id leave_update s) = Inl e \<Longrightarrow>
   snd (update_leave_request leave_id leave_update s) = s"
  unfolding update_leave_request_def Let_def
  by (simp split: option.splits bool.splits if_splits)

lemma delete_failure_keeps_store:
  "fst (delete_leave_request leave_id s) = Inl e \<Longrightarrow>
   snd (delete_leave_request leave_id s) = s"
  unfolding delete_leave_request_def
  by (simp split: option.splits if_splits)

lemma approve_failure_keeps_store:
  "fst (approve_leave_request leave_id approval s) = Inl e \<Longrightarrow>
   snd (approve_leave_request leave_id approval s) = s"
  unfolding approve_leave_request_def Let_def
  by (simp split: option.splits if_splits)

text \<open>
  C8. Whenever create, update, cancel or approve ends in a validation error (NotFound,
  InvalidRange, Conflict, InvalidState: every \<open>HTTPException\<close>), the store after the
  call is the store before it: every \<open>raise\<close> of the four handlers precedes the first
  write. The same holds for the two uncaught exceptions of the update. A create whose
  insert the store refuses is not a validation error; it changes no row either, and
  only the sequence has moved on by the value drawn.
\<close>

theorem failed_operation_keeps_store:
  "(\<forall>e. fst (create_leave_request today leave_request s) = Inl e \<longrightarrow>
        snd (create_leave_request today leave_request s) =
          (if e = IntegrityError
           then s\<lparr>leave_requests_id_seq := leave_requests_id_seq s + 1\<rparr> else s)) \<and>
   (\<forall>e. fst (update_leave_request leave_id leave_update s) = Inl e \<longrightarrow>
        snd (update_leave_request leave_id leave_update s) = s) \<and>
   (\<forall>e. fst (delete_leave_request leave_id' s) = Inl e \<longrightarrow>
        snd (delete_leave_request leave_id' s) = s) \<and>
   (\<forall>e. fst (approve_leave_request leave_id'' approval s) = Inl e \<longrightarrow>
        snd (approve_leave_request leave_id'' approval s) = s)"
  using create_failure_keeps_store update_failure_keeps_store delete_failure_keeps_store
    approve_failure_keeps_store by blast

text \<open>
  On \<open>store2\<close>: a create inside the approved request 1 (Conflict), an update of the
  pending request 2 with the end before its start (InvalidRange), the cancellation of
  the unknown request 99 (NotFound) and an approval of the approved request 1
  (InvalidState) all leave \<open>store2\<close> as it was.
\<close>

theorem failed_operation_keeps_store_witness:
  "fst (create_leave_request 739221 (example_create 739245 739246) store2) =
     Inl (HTTPException 400 (Overlapping 1)) \<and>
   snd (create_leave_request 739221 (example_create 739245 739246) store2) = store2 \<and>
   fst (update_leave_request 2
          \<lparr>u_leave_type = None, u_start_date = None, u_end_date = Some (Some 738880),
           u_reason = None\<rparr> store2) = Inl (HTTPException 400 EndBeforeStart) \<and>
   snd (update_leave_request 2
          \<lparr>u_leave_type = None, u_start_date = None, u_end_date = Some (Some 738880),
           u_reason = None\<rparr> store2) = store2 \<and>
   fst (delete_leave_request 99 store2) = Inl (HTTPException 404 (LeaveNotFound 99)) \<and>
   snd (delete_leave_request 99 store2) = store2 \<and>
   fst (approve_leave_request 1
          \<lparr>a_approved = True, a_approved_by = 2, a_comments = None\<rparr> store2) =
     Inl (HTTPException 400 (CannotApprove APPROVED)) \<and>
   snd (approve_leave_request 1
          \<lparr>a_approved = True, a_approved_by = 2, a_comments = None\<rparr> store2) = store2"
proof -
  have c: "fst (create_leave_request 739221 (example_create 739245 739246) store2) =
             Inl (HTTPException 400 (Overlapping 1))"
    by (simp add: create_leave_request_def overlapping_filter_def store2_def store0_def
          example_create_def example_employee_def example_leave_def)
  have u: "fst (update_leave_request 2
          \<lparr>u_leave_type = None, u_start_date = None, u_end_date = Some (Some 738880),
           u_reason = None\<rparr> store2) = Inl (HTTPException 400 EndBeforeStart)"
    by (simp add: update_leave_request_def dict_get_def py_lt_def store2_def store0_def
          example_leave_def)
  have d: "fst (delete_leave_request 99 store2) = Inl (HTTPException 404 (LeaveNotFound 99))"
    by (simp add: delete_leave_request_def store2_def store0_def example_leave_def)
  have a: "fst (approve_leave_request 1
          \<lparr>a_approved = True, a_approved_by = 2, a_comments = None\<rparr> store2) =
     Inl (HTTPException 400 (CannotApprove APPROVED))"
    by (simp add: approve_leave_request_def store2_def store0_def example_leave_def)
  note t = failed_operation_keeps_store
             [of 739221 "example_create 739245 739246" store2 2
                 "\<lparr>u_leave_type = None, u_start_date = None,
                   u_end_date = Some (Some 738880), u_reason = None\<rparr>"
                 99 1 "\<lparr>a_approved = True, a_approved_by = 2, a_comments = None\<rparr>"]
  from t c have "snd (create_leave_request 739221 (example_create 739245 739246) store2)
                   = store2"
    by simp
  moreover from t u have "snd (update_leave_request 2
          \<lparr>u_leave_type = None, u_start_date = None, u_end_date = Some (Some 738880),
           u_reason = None\<rparr> store2) = store2"
    by blast
  moreover from t d have "snd (delete_leave_request 99 store2) = store2"
    by blast
  moreover from t a have "snd (approve_leave_request 1
          \<lparr>a_approved = True, a_approved_by = 2, a_comments = None\<rparr> store2) = store2"
    by blast
  ultimately show ?thesis
    using c u d a by blast
qed

section \<open>Deleting a department\<close>

lemma count_positive_iff:
  "int (length (filter P xs)) > 0 \<longleftrightarrow> (\<exists>x \<in> set xs. P x)"
  by (simp add: filter_empty_conv)

lemma find_department_id:
  "find (\<lambda>d. d_id d = k) rows = Some x \<Longrightarrow> d_id x = k"
  by (auto simp: find_Some_iff)

text \<open>
  C9. For an existing department, \<open>delete_department\<close> raises the exception for a
  department with employees (400; InvalidState) exactly when some employee row has that
  \<open>department_id\<close>, and then the store is unchanged; when no employee row has it, the delete
  succeeds, only the department row with that id is removed, and the id no longer
  resolves.
\<close>

theorem delete_department_iff_no_employee:
  assumes found: "find (\<lambda>d. d_id d = department_id) (departments s) = Some db_department"
  shows "(fst (delete_department department_id s) =
            Inl (HTTPException 400 DepartmentHasEmployees) \<longleftrightarrow>
          (\<exists>e \<in> set (employees s). e_department_id e = department_id)) \<and>
         ((\<exists>e \<in> set (employees s). e_department_id e = department_id) \<longrightarrow>
            snd (delete_department department_id s) = s) \<and>
         (\<not> (\<exists>e \<in> set (employees s). e_department_id e = department_id) \<longrightarrow>
            delete_department department_id s =
              (Inr (), s\<lparr>departments :=
                          filter (\<lambda>d. d_id d \<noteq> department_id) (departments s)\<rparr>) \<and>
            find (\<lambda>d. d_id d = department_id)
              (departments (snd (delete_department department_id s))) = None)"
proof -
  have k: "d_id db_department = department_id"
    using found by (rule find_department_id)
  have run: "delete_department department_id s =
          (if \<exists>e \<in> set (employees s). e_department_id e = department_id
           then (Inl (HTTPException 400 DepartmentHasEmployees), s)
           else (Inr (), s\<lparr>departments :=
                          filter (\<lambda>d. d_id d \<noteq> department_id) (departments s)\<rparr>))"
    using found k
    by (simp add: delete_department_def Let_def count_positive_iff db_delete_department_def
          del: of_nat_0_less_iff)
  have gone: "find (\<lambda>d. d_id d = department_id)
                (filter (\<lambda>d. d_id d \<noteq> department_id) (departments s)) = None"
    by (simp add: find_None_iff)
  show ?thesis
    by (simp add: run gone)
qed

text \<open>
  In \<open>store0\<close> both employees are in department 1 and none is in department 2:
  deleting department 1 is refused, deleting department 2 removes it.
\<close>

theorem delete_department_iff_no_employee_witness:
  "fst (delete_department 1 store0) = Inl (HTTPException 400 DepartmentHasEmployees) \<and>
   snd (delete_department 1 store0) = store0 \<and>
   delete_department 2 store0 =
     (Inr (), store0\<lparr>departments := [example_department 1 (Some 2)]\<rparr>)"
proof -
  have f1: "find (\<lambda>d. d_id d = 1) (departments store0) = Some (example_department 1 (Some 2))"
    by (simp add: store0_def example_department_def)
  have f2: "find (\<lambda>d. d_id d = 2) (departments store0) = Some (example_department 2 None)"
    by (simp add: store0_def example_department_def)
  have some: "\<exists>e \<in> set (employees store0). e_department_id e = 1"
    by (simp add: store0_def example_employee_def)
  have none: "\<not> (\<exists>e \<in> set (employees store0). e_department_id e = 2)"
    by (simp add: store0_def example_employee_def)
  from delete_department_iff_no_employee [OF f1] some
  have r1: "fst (delete_department 1 store0) = Inl (HTTPException 400 DepartmentHasEmployees)"
    "snd (delete_department 1 store0) = store0"
    by blast+
  from delete_department_iff_no_employee [OF f2] none
  have "delete_department 2 store0 =
          (Inr (), store0\<lparr>departments := filter (\<lambda>d. d_id d \<noteq> 2) (departments store0)\<rparr>)"
    by blast
  then have r2: "delete_department 2 store0 =
     (Inr (), store0\<lparr>departments := [example_department 1 (Some 2)]\<rparr>)"
    by (simp add: store0_def example_department_def)
  from r1 r2 show ?thesis by blast
qed

section \<open>Deleting an employee\<close>

lemma find_employee_id:
  "find (\<lambda>e. e_id e = k) rows = Some x \<Longrightarrow> e_id x = k"
  by (auto simp: find_Some_iff)

text \<open>
  C10, as stated, fails: deletion does not succeed for every existing employee. In
  \<open>store1\<close> employee 1 exists and leave request 1 has \<open>employee_id\<close> 1; the commit of the
  delete is refused, the handler ends in \<open>IntegrityError\<close>, and the store is unchanged.
\<close>

theorem delete_employee_counterexample:
  "1 \<in> set (map e_id (employees store1)) \<and>
   1 \<in> set (map l_employee_id (leave_requests store1)) \<and>
   fst (delete_employee 1 store1) = Inl IntegrityError \<and>
   fst (delete_employee 1 store1) \<noteq> Inr () \<and>
   snd (delete_employee 1 store1) = store1"
  by (simp add: delete_employee_def db_delete_employee_def employee_referenced_def
        store1_def store0_def example_leave_def example_employee_def example_department_def)

text \<open>
  C10, amended. \<open>delete_employee\<close> makes no referential check of its own and never
  changes a department or a leave request. For an existing employee that no department
  names as manager and no leave request names as employee or approver, it succeeds and
  removes only the employee row with that id. For an existing employee that is still
  referenced, the store refuses the commit, the handler ends in \<open>IntegrityError\<close>, and
  nothing is removed or changed, so no dangling reference is left behind.
\<close>

theorem delete_employee_no_cascade:
  assumes found: "find (\<lambda>e. e_id e = employee_id) (employees s) = Some db_employee"
  shows "delete_employee employee_id s =
           (if employee_referenced employee_id s then (Inl IntegrityError, s)
            else (Inr (), s\<lparr>employees :=
                            filter (\<lambda>e. e_id e \<noteq> employee_id) (employees s)\<rparr>)) \<and>
         departments (snd (delete_employee employee_id s)) = departments s \<and>
         leave_requests (snd (delete_employee employee_id s)) = leave_requests s"
proof -
  have k: "e_id db_employee = employee_id"
    using found by (rule find_employee_id)
  have run: "delete_employee employee_id s =
           (if employee_referenced employee_id s then (Inl IntegrityError, s)
            else (Inr (), s\<lparr>employees :=
                            filter (\<lambda>e. e_id e \<noteq> employee_id) (employees s)\<rparr>))"
    using found k by (simp add: delete_employee_def db_delete_employee_def)
  show ?thesis
    by (simp add: run)
qed

text \<open>
  In \<open>store0\<close> employee 1 is referenced nowhere and is deleted; employee 2 is the manager
  of department 1 and its deletion is refused.
\<close>

theorem delete_employee_no_cascade_witness:
  "delete_employee 1 store0 = (Inr (), store0\<lparr>employees := [example_employee 2 1]\<rparr>) \<and>
   delete_employee 2 store0 = (Inl IntegrityError, store0)"
proof -
  have f1: "find (\<lambda>e. e_id e = 1) (employees store0) = Some (example_employee 1 1)"
    by (simp add: store0_def example_employee_def)
  have f2: "find (\<lambda>e. e_id e = 2) (employees store0) = Some (example_employee 2 1)"
    by (simp add: store0_def example_employee_def)
  have free: "\<not> employee_referenced 1 store0"
    by (simp add: employee_referenced_def store0_def example_department_def)
  have used: "employee_referenced 2 store0"
    by (simp add: employee_referenced_def store0_def example_department_def)
  from delete_employee_no_cascade [OF f1] free
  have "delete_employee 1 store0 =
          (Inr (), store0\<lparr>employees := filter (\<lambda>e. e_id e \<noteq> 1) (employees store0)\<rparr>)"
    by simp
  then have r1: "delete_employee 1 store0 =
                   (Inr (), store0\<lparr>employees := [example_employee 2 1]\<rparr>)"
    by (simp add: store0_def example_employee_def)
  from delete_employee_no_cascade [OF f2] used
  have r2: "delete_employee 2 store0 = (Inl IntegrityError, store0)"
    by simp
  from r1 r2 show ?thesis by blast
qed

end
